theory Spec2Isabelle
  imports Complex_Main "HOL-Library.Sublist" "HOL-Library.AList"
begin

section \<open>Exceptions\<close>

text \<open>
  The Python exceptions the modelled functions raise, each with its message. A function
  that may raise returns \<open>error + 'a\<close>; \<open>Inl\<close> is the raise.
\<close>

datatype error =
    NotImplementedError string
  | ValueError string
  | FileNotFoundError string
  | IsADirectoryError string
  | TypeError string
  | IndexError string
  | ZeroDivisionError string
  | FileExistsError string
  | NotADirectoryError string

section \<open>EISeg: \<open>get_predictor\<close> (eiseg/inference/predictor/__init__.py)\<close>

text \<open>
  A keyword dictionary maps argument names to values. The only value \<open>get_predictor\<close>
  creates itself is the integer \<open>1\<close>; every other value is the caller's and opaque.
\<close>

datatype 'v pyval = PyInt int | PyObj 'v

type_synonym 'v kwargs = "string \<rightharpoonup> 'v pyval"

text \<open>An optional parameter of a call: left out by the caller, or given.\<close>

datatype 'a arg = Omitted | Given 'a

fun arg_or :: "'a \<Rightarrow> 'a arg \<Rightarrow> 'a" where
  "arg_or d Omitted = d"
| "arg_or d (Given x) = x"

text \<open>
  Line 14: \<open>zoom_in = ZoomIn(**zoom_in_params) if zoom_in_params is not None else None\<close>.
  The class \<open>ZoomIn\<close> (inference.transforms) is a parameter: its constructor
  takes the keyword dictionary and returns the transform or raises.
\<close>

definition zoom_in_of ::
  "('v kwargs \<Rightarrow> error + 'z) \<Rightarrow> 'v kwargs option \<Rightarrow> error + 'z option" where
  "zoom_in_of ZoomIn zoom_in_params =
     (case zoom_in_params of
        Some kw \<Rightarrow> (case ZoomIn kw of Inl e \<Rightarrow> Inl e | Inr z \<Rightarrow> Inr (Some z))
      | None \<Rightarrow> Inr None)"

text \<open>
  Lines 10 to 18: \<open>predictor_params_\<close> starts as \<open>{'optimize_after_n_clicks': 1}\<close>
  and, when the caller's \<open>predictor_params\<close> is not \<open>None\<close>, is updated in place by
  \<open>predictor_params_ |= predictor_params\<close> (the right operand wins on a shared key).
\<close>

definition predictor_params_of :: "'v kwargs option \<Rightarrow> 'v kwargs" where
  "predictor_params_of predictor_params =
     (let predictor_params' = [''optimize_after_n_clicks'' \<mapsto> PyInt 1]
      in case predictor_params of
           Some pp \<Rightarrow> predictor_params' ++ pp
         | None \<Rightarrow> predictor_params')"

text \<open>
  The body of \<open>get_predictor\<close>, lines 10 to 23. \<open>BasePredictor\<close> (predictor/base.py) is
  a parameter standing for the call
  \<open>BasePredictor(net, zoom_in=zoom_in, with_flip=with_flip, **predictor_params_)\<close>:
  it receives the network, the transform (or \<open>None\<close>), the flag and the keyword
  dictionary and returns the predictor, or raises (as the call does, for one, when the
  dictionary itself has the key \<open>zoom_in\<close> or \<open>with_flip\<close>). The transform is built
  on line 14, before the mode is looked at.
\<close>

definition get_predictor_body ::
  "('v kwargs \<Rightarrow> error + 'z) \<Rightarrow> ('n \<Rightarrow> 'z option \<Rightarrow> bool \<Rightarrow> 'v kwargs \<Rightarrow> error + 'p) \<Rightarrow>
   'n \<Rightarrow> string \<Rightarrow> bool \<Rightarrow> 'v kwargs option \<Rightarrow> 'v kwargs option \<Rightarrow> error + 'p" where
  "get_predictor_body ZoomIn BasePredictor net brs_mode with_flip zoom_in_params predictor_params =
     (case zoom_in_of ZoomIn zoom_in_params of
        Inl e \<Rightarrow> Inl e
      | Inr zoom_in \<Rightarrow>
          if brs_mode = ''NoBRS''
          then BasePredictor net zoom_in with_flip (predictor_params_of predictor_params)
          else Inl (NotImplementedError ''Just support NoBRS mode''))"

text \<open>
  The signature, lines 5 to 8: \<open>with_flip=True\<close>, \<open>zoom_in_params=dict()\<close>,
  \<open>predictor_params=None\<close>. A parameter the caller leaves out takes its default; a
  caller may also pass \<open>None\<close> for either dictionary.
\<close>

definition get_predictor ::
  "('v kwargs \<Rightarrow> error + 'z) \<Rightarrow> ('n \<Rightarrow> 'z option \<Rightarrow> bool \<Rightarrow> 'v kwargs \<Rightarrow> error + 'p) \<Rightarrow>
   'n \<Rightarrow> string \<Rightarrow> bool arg \<Rightarrow> 'v kwargs option arg \<Rightarrow> 'v kwargs option arg \<Rightarrow> error + 'p" where
  "get_predictor ZoomIn BasePredictor net brs_mode with_flip zoom_in_params predictor_params =
     get_predictor_body ZoomIn BasePredictor net brs_mode
       (arg_or True with_flip)
       (arg_or (Some Map.empty) zoom_in_params)
       (arg_or None predictor_params)"

section \<open>EISeg: the hash-update tool (tool/update_md5.py)\<close>

text \<open>
  The directory tree under \<open>models_dir\<close> (the current directory): each entry, listed
  under its path relative to \<open>models_dir\<close> in the order a scan yields it, is a regular
  file with its bytes or a directory. A path is looked up with \<open>map_of\<close>.
\<close>

datatype disk_entry = File string | Dir

type_synonym disk = "(string \<times> disk_entry) list"

definition ext :: string where
  "ext = ''.pdparams''"

text \<open>
  Line 6: \<open>models_dir.glob(f"*/*{ext}")\<close> yields the entries two levels down whose name
  ends with \<open>ext\<close>: the path is a directory name, a slash, and a name without a slash.
  The files the loop writes end with \<open>.md5\<close> and are never yielded, so the paths are
  those of the tree as the script finds it.
\<close>

definition glob_match :: "string \<Rightarrow> bool" where
  "glob_match p =
     (let parent = takeWhile (\<lambda>c. c \<noteq> CHR ''/'') p;
          rest = dropWhile (\<lambda>c. c \<noteq> CHR ''/'') p
      in parent \<noteq> [] \<and> rest \<noteq> [] \<and> CHR ''/'' \<notin> set (tl rest) \<and> suffix ext (tl rest))"

definition glob :: "disk \<Rightarrow> string list" where
  "glob fs = filter glob_match (map fst fs)"

text \<open>\<open>Path.read_bytes\<close> and \<open>Path.write_text\<close>; opening a directory raises.\<close>

definition read_bytes :: "disk \<Rightarrow> string \<Rightarrow> error + string" where
  "read_bytes fs p =
     (case map_of fs p of
        Some (File bytes) \<Rightarrow> Inr bytes
      | Some Dir \<Rightarrow> Inl (IsADirectoryError p)
      | None \<Rightarrow> Inl (FileNotFoundError p))"

definition write_text :: "disk \<Rightarrow> string \<Rightarrow> string \<Rightarrow> error + disk" where
  "write_text fs p data =
     (case map_of fs p of
        Some Dir \<Rightarrow> Inl (IsADirectoryError p)
      | _ \<Rightarrow> Inr (AList.update p (File data) fs))"

text \<open>Line 8: \<open>f"{str(model_path)[:-len(ext)]}.md5"\<close>.\<close>

definition md5_path_of :: "string \<Rightarrow> string" where
  "md5_path_of model_path =
     take (length model_path - length ext) model_path @ ''.md5''"

text \<open>
  Lines 6 to 9, the loop over the paths the glob yields. \<open>md5\<close> stands for
  \<open>hashlib.md5(bytes).hexdigest()\<close>. The result is the exception that ended the
  script, if any, and the tree it leaves.
\<close>

fun update_md5_loop :: "(string \<Rightarrow> string) \<Rightarrow> string list \<Rightarrow> disk \<Rightarrow> error option \<times> disk" where
  "update_md5_loop md5 [] fs = (None, fs)"
| "update_md5_loop md5 (model_path # model_paths) fs =
     (case read_bytes fs model_path of
        Inl e \<Rightarrow> (Some e, fs)
      | Inr bytes \<Rightarrow>
          (case write_text fs (md5_path_of model_path) (md5 bytes) of
             Inl e \<Rightarrow> (Some e, fs)
           | Inr fs' \<Rightarrow> update_md5_loop md5 model_paths fs'))"

definition update_md5 :: "(string \<Rightarrow> string) \<Rightarrow> disk \<Rightarrow> error option \<times> disk" where
  "update_md5 md5 fs = update_md5_loop md5 (glob fs) fs"

section \<open>PaddleSeg: \<open>Dataset.__init__\<close> (paddleseg/datasets/dataset.py)\<close>

subsection \<open>The string and path operations the constructor calls\<close>

text \<open>
  A string is a sequence of code points below 256 (Latin-1), one \<open>char\<close> each; code
  points beyond are not modelled. \<open>str.lower\<close> maps the upper-case letters \<open>A\<close> to
  \<open>Z\<close> and \<open>0xC0\<close> to \<open>0xDE\<close> (but for the sign \<open>0xD7\<close>) to the letter 32 code
  points further, and leaves every other code point.
\<close>

definition lower_char :: "char \<Rightarrow> char" where
  "lower_char c =
     (let n = of_char c :: nat
      in if (65 \<le> n \<and> n \<le> 90) \<or> (192 \<le> n \<and> n \<le> 222 \<and> n \<noteq> 215)
         then char_of (n + 32)
         else c)"

definition str_lower :: "string \<Rightarrow> string" where
  "str_lower s = map lower_char s"

text \<open>
  \<open>str.strip()\<close> removes leading and trailing whitespace: space, the control
  characters \<open>0x09\<close> to \<open>0x0D\<close>, the separators \<open>0x1C\<close> to \<open>0x1F\<close>, next line
  \<open>0x85\<close> and the no-break space \<open>0xA0\<close>.
\<close>

definition is_space :: "char \<Rightarrow> bool" where
  "is_space c = (c \<in> set [CHR '' '', CHR 0x09, CHR 0x0A, CHR 0x0B, CHR 0x0C, CHR 0x0D,
                           CHR 0x1C, CHR 0x1D, CHR 0x1E, CHR 0x1F, CHR 0x85, CHR 0xA0])"

definition str_strip :: "string \<Rightarrow> string" where
  "str_strip s = rev (dropWhile is_space (rev (dropWhile is_space s)))"

text \<open>
  \<open>str.split(sep)\<close> with a separator: the string is cut at every occurrence of
  \<open>sep\<close>, found from the left and not overlapping; \<open>cur\<close> is the field read so far.
  An empty separator raises \<open>ValueError('empty separator')\<close>. (The parameter
  \<open>separator\<close> is a string, default \<open>' '\<close>.)
\<close>

function py_split :: "string \<Rightarrow> string \<Rightarrow> string \<Rightarrow> string list" where
  "py_split sep cur [] = [cur]"
| "py_split sep cur (c # cs) =
     (if sep \<noteq> [] \<and> prefix sep (c # cs)
      then cur # py_split sep [] (drop (length sep) (c # cs))
      else py_split sep (cur @ [c]) cs)"
  by pat_completeness auto
termination
  by (relation "measure (\<lambda>(sep, cur, s). length s)") (auto simp: neq_Nil_conv)

definition str_split :: "string \<Rightarrow> string \<Rightarrow> error + string list" where
  "str_split s sep =
     (if sep = [] then Inl (ValueError ''empty separator'') else Inr (py_split sep [] s))"

text \<open>
  \<open>os.path.join(a, b)\<close> on POSIX: an absolute \<open>b\<close> replaces \<open>a\<close>; otherwise
  \<open>b\<close> is appended, after a \<open>/\<close> unless \<open>a\<close> is empty or ends with one.
\<close>

definition path_join :: "string \<Rightarrow> string \<Rightarrow> string" where
  "path_join a b =
     (if prefix ''/'' b then b
      else if a = [] \<or> suffix ''/'' a then a @ b
      else a @ ''/'' @ b)"


subsection \<open>The file system the constructor reads\<close>

text \<open>
  A path names a text file, given by the lines that iterating over the open file
  yields (each with its line end), or a directory. \<open>os.path.exists\<close> holds for
  both; \<open>open\<close> succeeds on a file.
\<close>

datatype fs_entry = TextFile "string list" | Directory

type_synonym file_system = "string \<rightharpoonup> fs_entry"

definition path_exists :: "file_system \<Rightarrow> string \<Rightarrow> bool" where
  "path_exists fs p = (fs p \<noteq> None)"

definition open_lines :: "file_system \<Rightarrow> string \<Rightarrow> error + string list" where
  "open_lines fs p =
     (case fs p of
        Some (TextFile ls) \<Rightarrow> Inr ls
      | Some Directory \<Rightarrow> Inl (IsADirectoryError p)
      | None \<Rightarrow> Inl (FileNotFoundError p))"

subsection \<open>The constructor\<close>

text \<open>The attributes \<open>__init__\<close> sets on \<open>self\<close>.\<close>

record 'c Dataset =
  self_dataset_root :: string
  self_transforms :: 'c
  self_file_list :: "(string \<times> string option) list"
  self_mode :: string
  self_num_classes :: int
  self_ignore_index :: int
  self_edge :: bool

text \<open>The message of line 127, an f-string that ends with a backslash and an \<open>n\<close>.\<close>

definition format_incorrect :: "string \<Rightarrow> string" where
  "format_incorrect separator =
     ''File list format incorrect! In training or evaluation task it should be image_name''
     @ separator @ ''label_name'' @ [CHR 0x5C] @ ''n''"

text \<open>
  Lines 123 to 134, the body of the loop over the file: the line is stripped and
  split. With other than two items, modes \<open>train\<close> and \<open>val\<close> raise and any other
  mode keeps the first item as the image path, with no label.
\<close>

definition parse_line ::
  "string \<Rightarrow> string \<Rightarrow> string \<Rightarrow> string \<Rightarrow> error + string \<times> string option" where
  "parse_line mode dataset_root separator line =
     (case str_split (str_strip line) separator of
        Inl e \<Rightarrow> Inl e
      | Inr items \<Rightarrow>
          if length items \<noteq> 2 then
            if mode \<in> set [''train'', ''val'']
            then Inl (ValueError (format_incorrect separator))
            else (case items of
                    [] \<Rightarrow> Inl (IndexError ''list index out of range'')
                  | item0 # _ \<Rightarrow> Inr (path_join dataset_root item0, None))
          else Inr (path_join dataset_root (items ! 0),
                    Some (path_join dataset_root (items ! 1))))"

text \<open>
  Lines 122 to 135, the loop: every entry is appended to \<open>self.file_list\<close>; the first
  line that raises ends the constructor.
\<close>

fun read_file_list ::
  "string \<Rightarrow> string \<Rightarrow> string \<Rightarrow> string list \<Rightarrow> (string \<times> string option) list \<Rightarrow>
   error + (string \<times> string option) list" where
  "read_file_list mode dataset_root separator [] file_list = Inr file_list"
| "read_file_list mode dataset_root separator (line # f) file_list =
     (case parse_line mode dataset_root separator line of
        Inl e \<Rightarrow> Inl e
      | Inr entry \<Rightarrow> read_file_list mode dataset_root separator f (file_list @ [entry]))"

text \<open>Lines 94 to 119: the file list of the mode must be given and must exist.\<close>

definition select_file_path ::
  "file_system \<Rightarrow> string \<Rightarrow> string option \<Rightarrow> string option \<Rightarrow> string option \<Rightarrow> error + string" where
  "select_file_path fs mode train_path val_path test_path =
     (if mode = ''train'' then
        (case train_path of
           None \<Rightarrow> Inl (ValueError
             ''When `mode` is \"train\", `train_path` is necessary, but it is None.'')
         | Some p \<Rightarrow>
             if \<not> path_exists fs p
             then Inl (FileNotFoundError (''`train_path` is not found: '' @ p))
             else Inr p)
      else if mode = ''val'' then
        (case val_path of
           None \<Rightarrow> Inl (ValueError
             ''When `mode` is \"val\", `val_path` is necessary, but it is None.'')
         | Some p \<Rightarrow>
             if \<not> path_exists fs p
             then Inl (FileNotFoundError (''`val_path` is not found: '' @ p))
             else Inr p)
      else
        (case test_path of
           None \<Rightarrow> Inl (ValueError
             ''When `mode` is \"test\", `test_path` is necessary, but it is None.'')
         | Some p \<Rightarrow>
             if \<not> path_exists fs p
             then Inl (FileNotFoundError (''`test_path` is not found: '' @ p))
             else Inr p))"

text \<open>
  \<open>Dataset.__init__\<close>, lines 75 to 135. \<open>Compose\<close> (paddleseg.transforms) is a
  parameter: it is called first, on line 76, and returns the composed transform or
  raises. Its result is typed as optional so that the test \<open>self.transforms is None\<close>
  of line 87 is a branch. The mode is lowered on line 78 and again in the test of
  line 84.
\<close>

definition Dataset_init ::
  "('t \<Rightarrow> error + 'c option) \<Rightarrow> file_system \<Rightarrow> 't \<Rightarrow> string \<Rightarrow> int \<Rightarrow> string \<Rightarrow>
   string option \<Rightarrow> string option \<Rightarrow> string option \<Rightarrow> string \<Rightarrow> int \<Rightarrow> bool \<Rightarrow>
   error + 'c option Dataset" where
  "Dataset_init Compose fs transforms dataset_root num_classes mode
       train_path val_path test_path separator ignore_index edge =
     (case Compose transforms of
        Inl e \<Rightarrow> Inl e
      | Inr composed \<Rightarrow>
          let mode' = str_lower mode in
          if str_lower mode' \<notin> set [''train'', ''val'', ''test''] then
            Inl (ValueError
              (''mode should be 'train', 'val' or 'test', but got '' @ mode' @ ''.''))
          else if composed = None then
            Inl (ValueError ''`transforms` is necessary, but it is None.'')
          else if \<not> path_exists fs dataset_root then
            Inl (FileNotFoundError (''there is not `dataset_root`: '' @ dataset_root @ ''.''))
          else
            (case select_file_path fs mode' train_path val_path test_path of
               Inl e \<Rightarrow> Inl e
             | Inr file_path \<Rightarrow>
                 (case open_lines fs file_path of
                    Inl e \<Rightarrow> Inl e
                  | Inr f \<Rightarrow>
                      (case read_file_list mode' dataset_root separator f [] of
                         Inl e \<Rightarrow> Inl e
                       | Inr file_list \<Rightarrow>
                           Inr \<lparr>self_dataset_root = dataset_root,
                                self_transforms = composed,
                                self_file_list = file_list,
                                self_mode = mode',
                                self_num_classes = num_classes,
                                self_ignore_index = ignore_index,
                                self_edge = edge\<rparr>))))"

section \<open>Matting: the checkpoints of \<open>train\<close> (contrib/Matting/core/train.py)\<close>

subsection \<open>Naming a checkpoint directory\<close>

text \<open>\<open>str(i)\<close> of an integer: its decimal digits, after a minus sign when negative.\<close>

definition digit_char :: "nat \<Rightarrow> char" where
  "digit_char d = ''0123456789'' ! d"

function str_nat :: "nat \<Rightarrow> string" where
  "str_nat n = (if n < 10 then [digit_char n] else str_nat (n div 10) @ [digit_char (n mod 10)])"
  by pat_completeness auto
termination
  by (relation "measure id") auto

declare str_nat.simps [simp del]

definition str_int :: "int \<Rightarrow> string" where
  "str_int i = (if i < 0 then ''-'' @ str_nat (nat (- i)) else str_nat (nat i))"

subsection \<open>The loop\<close>

text \<open>
  The parameters of \<open>train\<close> that the checkpoint code reads, with \<open>local_rank\<close> of the
  parallel environment and the number of batches the loader yields in one pass.
\<close>

record train_cfg =
  save_dir :: string
  iters :: int
  save_interval :: int
  log_iters :: int
  keep_checkpoint_max :: int
  local_rank :: int
  batches :: nat

text \<open>
  The state of the loop: the counter \<open>iter\<close>, the deque \<open>save_models\<close> (its left end
  first) and the disk, as the paths of the directories and of the regular files that
  exist. The directory \<open>best_model\<close>, which lines 206 to 209 write when a validation
  set is given, is left out: it is never in the deque and never removed.
\<close>

record train_state =
  iter :: int
  save_models :: "string list"
  dirs :: "string set"
  files :: "string set"

text \<open>Line 169: \<open>os.path.join(save_dir, f"iter_{iter}")\<close>.\<close>

definition current_save_dir :: "train_cfg \<Rightarrow> int \<Rightarrow> string" where
  "current_save_dir cfg i = path_join (save_dir cfg) (''iter_'' @ str_int i)"

text \<open>
  \<open>os.makedirs(p)\<close> raises \<open>FileExistsError\<close> when something exists at \<open>p\<close>, and makes
  the directory otherwise. Its parent here is \<open>save_dir\<close>, which lines 70 to 73 have
  made a directory before the loop starts.
\<close>

definition os_makedirs :: "string \<Rightarrow> train_state \<Rightarrow> error option \<times> train_state" where
  "os_makedirs p s =
     (if p \<in> dirs s \<or> p \<in> files s then (Some (FileExistsError p), s)
      else (None, s\<lparr>dirs := insert p (dirs s)\<rparr>))"

text \<open>
  \<open>paddle.save(obj, path)\<close> writes the regular file \<open>path\<close>. The call belongs to the
  Paddle library and is taken to succeed.
\<close>

definition paddle_save :: "string \<Rightarrow> train_state \<Rightarrow> train_state" where
  "paddle_save path s = s\<lparr>files := insert path (files s)\<rparr>"

text \<open>
  \<open>shutil.rmtree(p)\<close> removes the directory \<open>p\<close> with all that lies below it; it
  raises \<open>NotADirectoryError\<close> on a regular file and \<open>FileNotFoundError\<close> when nothing
  is at \<open>p\<close>.
\<close>

definition under :: "string \<Rightarrow> string \<Rightarrow> bool" where
  "under p q = (q = p \<or> prefix (p @ ''/'') q)"

definition rmtree :: "string \<Rightarrow> train_state \<Rightarrow> error option \<times> train_state" where
  "rmtree p s =
     (if p \<in> dirs s
      then (None, s\<lparr>dirs := {q \<in> dirs s. \<not> under p q},
                    files := {q \<in> files s. \<not> under p q}\<rparr>)
      else if p \<in> files s then (Some (NotADirectoryError p), s)
      else (Some (FileNotFoundError p), s))"

text \<open>
  Lines 169 to 179, the body of the \<open>if\<close> that saves. The directory is made unless it
  is one already, the two \<open>paddle.save\<close> calls write into it, and its path is
  appended to the deque. When the deque is then longer than a positive
  \<open>keep_checkpoint_max\<close>, its left end is popped and that directory removed. The
  result is the exception, if any, and the state it leaves.
\<close>

definition save_checkpoint :: "train_cfg \<Rightarrow> train_state \<Rightarrow> error option \<times> train_state" where
  "save_checkpoint cfg s =
     (let dir = current_save_dir cfg (iter s)
      in case (if dir \<notin> dirs s then os_makedirs dir s else (None, s)) of
           (Some e, s1) \<Rightarrow> (Some e, s1)
         | (None, s1) \<Rightarrow>
             let s2 = paddle_save (path_join dir ''model.pdparams'') s1;
                 s3 = paddle_save (path_join dir ''model.pdopt'') s2;
                 s4 = s3\<lparr>save_models := save_models s3 @ [dir]\<rparr>
             in if int (length (save_models s4)) > keep_checkpoint_max cfg \<and>
                   keep_checkpoint_max cfg > 0
                then
                  let model_to_remove = hd (save_models s4);
                      s5 = s4\<lparr>save_models := tl (save_models s4)\<rparr>
                  in rmtree model_to_remove s5
                else (None, s4))"

text \<open>
  Lines 110 to 218, one pass of the loop body after the counter is advanced. The
  computations on the model, the logging and the evaluation do not touch the deque or
  the checkpoint directories; they are left out and taken to succeed, but for the two
  remainders: \<open>iter % log_iters\<close> (line 130) and \<open>iter % save_interval\<close> (line 168)
  raise on a zero divisor.
\<close>

definition train_iter :: "train_cfg \<Rightarrow> train_state \<Rightarrow> error option \<times> train_state" where
  "train_iter cfg s =
     (if log_iters cfg = 0 then (Some (ZeroDivisionError ''integer modulo by zero''), s)
      else if save_interval cfg = 0 then (Some (ZeroDivisionError ''integer modulo by zero''), s)
      else if (iter s mod save_interval cfg = 0 \<or> iter s = iters cfg) \<and> local_rank cfg = 0
           then save_checkpoint cfg s
           else (None, s))"

text \<open>
  Lines 104 to 109: \<open>while iter < iters: for data in loader: iter += 1; if iter > iters:
  break; ...\<close>, as a transition system. \<open>Running s k\<close>: the \<open>for\<close> loop has \<open>k\<close> batches
  left (with \<open>k = 0\<close> it is over and the \<open>while\<close> test comes next). \<open>Finished\<close>: the
  \<open>while\<close> loop has ended. \<open>Raised\<close>: an exception has left the loop. A loader without
  batches never advances \<open>iter\<close>, and the loop does not end.
\<close>

datatype loop_state =
    Running train_state nat
  | Finished train_state
  | Raised error train_state

fun step :: "train_cfg \<Rightarrow> loop_state \<Rightarrow> loop_state" where
  "step cfg (Running s 0) =
     (if iter s < iters cfg then Running s (batches cfg) else Finished s)"
| "step cfg (Running s (Suc k)) =
     (let s1 = s\<lparr>iter := iter s + 1\<rparr>
      in if iter s1 > iters cfg then Running s1 0
         else (case train_iter cfg s1 of
                 (Some e, s2) \<Rightarrow> Raised e s2
               | (None, s2) \<Rightarrow> Running s2 k))"
| "step cfg (Finished s) = Finished s"
| "step cfg (Raised e s) = Raised e s"



text \<open>
  Lines 101 and 104: the deque starts empty and \<open>iter\<close> at \<open>start_iter\<close>; \<open>dirs0\<close> and
  \<open>files0\<close> are the directories and regular files that exist when the loop starts.
  \<open>train\<close> after \<open>n\<close> transitions:
\<close>

definition train_init :: "int \<Rightarrow> string set \<Rightarrow> string set \<Rightarrow> loop_state" where
  "train_init start_iter dirs0 files0 =
     Running \<lparr>iter = start_iter, save_models = [], dirs = dirs0, files = files0\<rparr> 0"

definition train :: "train_cfg \<Rightarrow> int \<Rightarrow> string set \<Rightarrow> string set \<Rightarrow> nat \<Rightarrow> loop_state" where
  "train cfg start_iter dirs0 files0 n = (step cfg ^^ n) (train_init start_iter dirs0 files0)"

text \<open>
  The iterations up to \<open>i\<close> at which a run started at \<open>start_iter\<close> saves a checkpoint,
  oldest first (the test of line 168).
\<close>

definition save_points :: "train_cfg \<Rightarrow> int \<Rightarrow> int \<Rightarrow> int list" where
  "save_points cfg start_iter i =
     (if local_rank cfg = 0
      then filter (\<lambda>j. j mod save_interval cfg = 0 \<or> j = iters cfg)
             [start_iter + 1..min i (iters cfg)]
      else [])"




section \<open>The interactive predictor of the specification\<close>

subsection \<open>Zoom-In Transform: the coordinate mappings\<close>

text \<open>
  Modelled from the spec: the class \<open>ZoomIn\<close> (inference.transforms) is not
  among the sources. Section 4.2 of the specification has the transform record a scale,
  an offset (the corner \<open>row0, col0\<close> of the crop box) and padding offsets,
  and makes \<open>to_crop\<close> and \<open>to_full\<close> the affine maps between
  full-image and crop coordinates that these determine. Coordinates are exact rationals;
  floating-point rounding is not modelled.
\<close>

record zoom_state =
  crop_box :: "rat \<times> rat \<times> rat \<times> rat"
  target_size :: rat
  is_valid :: bool
  scale :: rat
  padding :: "rat \<times> rat"

text \<open>Modelled from the spec: the recorded offset is the corner of the crop box.\<close>

definition offset :: "zoom_state \<Rightarrow> rat \<times> rat" where
  "offset z = (case crop_box z of (row0, col0, row1, col1) \<Rightarrow> (row0, col0))"

text \<open>
  Modelled from the spec: \<open>to_crop\<close> takes a point of the full image to crop
  coordinates, \<open>to_full\<close> a point of the crop to full-image coordinates.
\<close>

definition to_crop :: "zoom_state \<Rightarrow> rat \<times> rat \<Rightarrow> rat \<times> rat" where
  "to_crop z p =
     ((fst p - fst (offset z)) * scale z + fst (padding z),
      (snd p - snd (offset z)) * scale z + snd (padding z))"

definition to_full :: "zoom_state \<Rightarrow> rat \<times> rat \<Rightarrow> rat \<times> rat" where
  "to_full z q =
     ((fst q - fst (padding z)) / scale z + fst (offset z),
      (snd q - snd (padding z)) / scale z + snd (offset z))"

subsection \<open>Predictor: the steps\<close>










section \<open>Properties of \<open>get_predictor\<close>\<close>

lemma zoom_in_of_None [simp]: "zoom_in_of Z None = Inr None"
  by (simp add: zoom_in_of_def)

lemma zoom_in_of_Some:
  "zoom_in_of Z (Some kw) = (case Z kw of Inl e \<Rightarrow> Inl e | Inr z \<Rightarrow> Inr (Some z))"
  by (simp add: zoom_in_of_def)

lemma predictor_params_of_lookup:
  "predictor_params_of pp k =
     (case pp of
        None \<Rightarrow> (if k = ''optimize_after_n_clicks'' then Some (PyInt 1) else None)
      | Some d \<Rightarrow> (case d k of
                     Some v \<Rightarrow> Some v
                   | None \<Rightarrow> (if k = ''optimize_after_n_clicks'' then Some (PyInt 1) else None)))"
  by (simp add: predictor_params_of_def map_add_def split: option.splits)

text \<open>
  C1. A \<open>brs_mode\<close> other than \<open>'NoBRS'\<close> makes \<open>get_predictor\<close> raise and return no
  predictor: \<open>NotImplementedError('Just support NoBRS mode')\<close>, unless building the
  zoom-in transform on line 14 has raised already. With \<open>'NoBRS'\<close> the result is the
  predictor that \<open>BasePredictor\<close> constructs from the network, the transform, the flag
  and the merged parameters.
\<close>

theorem get_predictor_brs_mode:
  "(brs_mode \<noteq> ''NoBRS'' \<longrightarrow>
      isl (get_predictor Z B net brs_mode flip zp pp) \<and>
      get_predictor Z B net brs_mode flip zp pp =
        (case zoom_in_of Z (arg_or (Some Map.empty) zp) of
           Inl e \<Rightarrow> Inl e
         | Inr zoom_in \<Rightarrow> Inl (NotImplementedError ''Just support NoBRS mode''))) \<and>
   get_predictor Z B net ''NoBRS'' flip zp pp =
     (case zoom_in_of Z (arg_or (Some Map.empty) zp) of
        Inl e \<Rightarrow> Inl e
      | Inr zoom_in \<Rightarrow>
          B net zoom_in (arg_or True flip) (predictor_params_of (arg_or None pp)))"
  by (simp add: get_predictor_def get_predictor_body_def split: sum.splits)

theorem get_predictor_brs_mode_witness:
  "''f-BRS-B'' \<noteq> ''NoBRS'' \<and>
   get_predictor (\<lambda>kw :: unit kwargs. Inr (kw ''target_size''))
     (\<lambda>n z f ps. Inr (n, z, f, ps ''optimize_after_n_clicks''))
     (0 :: nat) ''f-BRS-B'' Omitted Omitted Omitted =
     Inl (NotImplementedError ''Just support NoBRS mode'') \<and>
   get_predictor (\<lambda>kw :: unit kwargs. Inr (kw ''target_size''))
     (\<lambda>n z f ps. Inr (n, z, f, ps ''optimize_after_n_clicks''))
     (0 :: nat) ''NoBRS'' Omitted Omitted Omitted =
     Inr (0, Some None, True, Some (PyInt 1))"
  using get_predictor_brs_mode [of "''f-BRS-B''" "\<lambda>kw :: unit kwargs. Inr (kw ''target_size'')"
      "\<lambda>n z f ps. Inr (n, z, f, ps ''optimize_after_n_clicks'')" "0 :: nat" Omitted Omitted Omitted]
  by (simp add: zoom_in_of_Some predictor_params_of_lookup)

text \<open>
  C3. When the caller passes \<open>zoom_in_params=None\<close>, line 14 builds no \<open>ZoomIn\<close>: the
  result does not depend on the \<open>ZoomIn\<close> constructor at all, and in \<open>'NoBRS'\<close> mode
  \<open>BasePredictor\<close> is called with \<open>zoom_in=None\<close>. (In any other mode no predictor is
  built; the call raises.)
\<close>

theorem get_predictor_zoom_in_None:
  "get_predictor Z B net brs_mode flip (Given None) pp =
     (if brs_mode = ''NoBRS''
      then B net None (arg_or True flip) (predictor_params_of (arg_or None pp))
      else Inl (NotImplementedError ''Just support NoBRS mode'')) \<and>
   get_predictor Z B net brs_mode flip (Given None) pp =
     get_predictor Z' B net brs_mode flip (Given None) pp"
  by (simp add: get_predictor_def get_predictor_body_def)

text \<open>
  C4. In \<open>'NoBRS'\<close> mode \<open>BasePredictor\<close> is called with the keyword dictionary
  \<open>predictor_params_\<close>. Its entry \<open>optimize_after_n_clicks\<close> is \<open>1\<close> when the caller
  leaves \<open>predictor_params\<close> out, passes \<open>None\<close>, or passes a dictionary without that
  key; when the caller's dictionary has the key, the entry is the caller's value.
\<close>

theorem get_predictor_optimize_after_n_clicks:
  "get_predictor Z B net ''NoBRS'' flip zp pp =
     (case zoom_in_of Z (arg_or (Some Map.empty) zp) of
        Inl e \<Rightarrow> Inl e
      | Inr zoom_in \<Rightarrow>
          B net zoom_in (arg_or True flip) (predictor_params_of (arg_or None pp))) \<and>
   (pp = Omitted \<or> pp = Given None \<or>
      (\<exists>d. pp = Given (Some d) \<and> d ''optimize_after_n_clicks'' = None) \<longrightarrow>
    predictor_params_of (arg_or None pp) ''optimize_after_n_clicks'' = Some (PyInt 1)) \<and>
   (\<forall>d v. pp = Given (Some d) \<and> d ''optimize_after_n_clicks'' = Some v \<longrightarrow>
    predictor_params_of (arg_or None pp) ''optimize_after_n_clicks'' = Some v)"
  by (auto simp: get_predictor_def get_predictor_body_def predictor_params_of_lookup
      split: sum.splits)

theorem get_predictor_optimize_after_n_clicks_witness:
  "get_predictor (\<lambda>kw :: unit kwargs. Inr (kw ''target_size''))
     (\<lambda>n z f ps. Inr (ps ''optimize_after_n_clicks'', ps ''max_size''))
     (0 :: nat) ''NoBRS'' Omitted Omitted Omitted = Inr (Some (PyInt 1), None) \<and>
   get_predictor (\<lambda>kw :: unit kwargs. Inr (kw ''target_size''))
     (\<lambda>n z f ps. Inr (ps ''optimize_after_n_clicks'', ps ''max_size''))
     (0 :: nat) ''NoBRS'' Omitted Omitted (Given (Some [''max_size'' \<mapsto> PyInt 800])) =
     Inr (Some (PyInt 1), Some (PyInt 800)) \<and>
   get_predictor (\<lambda>kw :: unit kwargs. Inr (kw ''target_size''))
     (\<lambda>n z f ps. Inr (ps ''optimize_after_n_clicks'', ps ''max_size''))
     (0 :: nat) ''NoBRS'' Omitted Omitted (Given (Some [''optimize_after_n_clicks'' \<mapsto> PyInt 3])) =
     Inr (Some (PyInt 3), None)"
  using
    get_predictor_optimize_after_n_clicks [of "\<lambda>kw :: unit kwargs. Inr (kw ''target_size'')"
      "\<lambda>n z f ps. Inr (ps ''optimize_after_n_clicks'', ps ''max_size'')" "0 :: nat"
      Omitted Omitted Omitted]
    get_predictor_optimize_after_n_clicks [of "\<lambda>kw :: unit kwargs. Inr (kw ''target_size'')"
      "\<lambda>n z f ps. Inr (ps ''optimize_after_n_clicks'', ps ''max_size'')" "0 :: nat"
      Omitted Omitted "Given (Some [''max_size'' \<mapsto> PyInt 800])"]
    get_predictor_optimize_after_n_clicks [of "\<lambda>kw :: unit kwargs. Inr (kw ''target_size'')"
      "\<lambda>n z f ps. Inr (ps ''optimize_after_n_clicks'', ps ''max_size'')" "0 :: nat"
      Omitted Omitted "Given (Some [''optimize_after_n_clicks'' \<mapsto> PyInt 3])"]
  by (simp add: zoom_in_of_Some predictor_params_of_lookup)

text \<open>
  C5. Leaving \<open>with_flip\<close> out is the same as passing \<open>True\<close>, and in \<open>'NoBRS'\<close> mode
  \<open>BasePredictor\<close> is called with exactly the flag \<open>get_predictor\<close> was called with.
\<close>

theorem get_predictor_with_flip:
  "get_predictor Z B net brs_mode Omitted zp pp =
     get_predictor Z B net brs_mode (Given True) zp pp \<and>
   get_predictor Z B net ''NoBRS'' (Given b) zp pp =
     (case zoom_in_of Z (arg_or (Some Map.empty) zp) of
        Inl e \<Rightarrow> Inl e
      | Inr zoom_in \<Rightarrow> B net zoom_in b (predictor_params_of (arg_or None pp))) \<and>
   get_predictor Z B net ''NoBRS'' Omitted zp pp =
     (case zoom_in_of Z (arg_or (Some Map.empty) zp) of
        Inl e \<Rightarrow> Inl e
      | Inr zoom_in \<Rightarrow> B net zoom_in True (predictor_params_of (arg_or None pp)))"
  by (simp add: get_predictor_def get_predictor_body_def split: sum.splits)

text \<open>
  C8. The default of \<open>zoom_in_params\<close> is the empty dictionary, not \<open>None\<close>: a call that
  leaves the parameter out runs \<open>ZoomIn()\<close> with no keyword, that is with the
  transform's own defaults, and in \<open>'NoBRS'\<close> mode hands the transform to
  \<open>BasePredictor\<close>. Line 14 yields \<open>zoom_in = None\<close> exactly when the caller passes
  \<open>zoom_in_params=None\<close>.
\<close>

theorem get_predictor_zoom_in_default:
  "get_predictor Z B net brs_mode flip Omitted pp =
     get_predictor Z B net brs_mode flip (Given (Some Map.empty)) pp \<and>
   get_predictor Z B net brs_mode flip Omitted pp =
     (case Z Map.empty of
        Inl e \<Rightarrow> Inl e
      | Inr z \<Rightarrow>
          if brs_mode = ''NoBRS''
          then B net (Some z) (arg_or True flip) (predictor_params_of (arg_or None pp))
          else Inl (NotImplementedError ''Just support NoBRS mode'')) \<and>
   (zoom_in_of Z (arg_or (Some Map.empty) zp) = Inr None) = (zp = Given None)"
  by (cases zp)
    (auto simp: get_predictor_def get_predictor_body_def zoom_in_of_def
      split: sum.splits option.splits)

section \<open>Properties of the hash-update tool\<close>

lemma glob_match_suffix: "glob_match p \<Longrightarrow> suffix ext p"
proof -
  assume m: "glob_match p"
  let ?rest = "dropWhile (\<lambda>c. c \<noteq> CHR ''/'') p"
  from m have "suffix ext (tl ?rest)"
    by (simp add: glob_match_def Let_def)
  moreover have "suffix (tl ?rest) ?rest"
    by (metis list.collapse list.sel(2) suffix_ConsI suffix_order.order_refl)
  moreover have "suffix ?rest p"
    by (metis suffixI takeWhile_dropWhile_id)
  ultimately show ?thesis
    using suffix_order.trans by blast
qed

lemma md5_path_of_stem: "md5_path_of (stem @ ext) = stem @ ''.md5''"
  by (simp add: md5_path_of_def)

lemma md5_path_not_match: "\<not> glob_match (md5_path_of p)"
proof
  assume "glob_match (md5_path_of p)"
  then have "suffix ext (md5_path_of p)"
    by (rule glob_match_suffix)
  then obtain zs where "take (length p - length ext) p @ ''.md5'' = zs @ ext"
    by (auto simp: suffix_def md5_path_of_def)
  then have "last (take (length p - length ext) p @ ''.md5'') = last (zs @ ext)"
    by simp
  then show False
    by (simp add: ext_def)
qed

lemma md5_path_inj:
  assumes "glob_match p" "glob_match q" "md5_path_of p = md5_path_of q"
  shows "p = q"
proof -
  from assms(1,2) obtain s t where "p = s @ ext" "q = t @ ext"
    by (auto dest!: glob_match_suffix simp: suffix_def)
  with assms(3) show ?thesis
    by (simp add: md5_path_of_stem)
qed

lemma map_of_write_text:
  "write_text fs p data = Inr fs' \<Longrightarrow> map_of fs' = (map_of fs)(p \<mapsto> File data)"
  by (auto simp: write_text_def update_conv' split: option.splits disk_entry.splits)

lemma update_md5_loop_changes:
  assumes "\<forall>p \<in> set ps. glob_match p"
    and "update_md5_loop md5 ps fs = (e, fs')"
  shows "(\<forall>q. map_of fs' q = map_of fs q \<or>
              (\<exists>p \<in> set ps. \<exists>bytes. q = md5_path_of p \<and> map_of fs p = Some (File bytes) \<and>
                 map_of fs' q = Some (File (md5 bytes)))) \<and>
         (e = None \<longrightarrow>
            (\<forall>p \<in> set ps. \<exists>bytes. map_of fs p = Some (File bytes) \<and>
               map_of fs' (md5_path_of p) = Some (File (md5 bytes))))"
  using assms
proof (induction ps arbitrary: fs)
  case Nil
  then show ?case by simp
next
  case (Cons p ps)
  show ?case
  proof (cases "read_bytes fs p")
    case (Inl err)
    with Cons.prems show ?thesis by auto
  next
    case (Inr bytes)
    then have rd: "map_of fs p = Some (File bytes)"
      by (auto simp: read_bytes_def split: option.splits disk_entry.splits)
    show ?thesis
    proof (cases "write_text fs (md5_path_of p) (md5 bytes)")
      case (Inl err)
      with Inr Cons.prems show ?thesis by auto
    next
      case wr: (Inr fs1)
      from map_of_write_text [OF wr]
      have m1: "map_of fs1 = (map_of fs)(md5_path_of p \<mapsto> File (md5 bytes))" .
      from Cons.prems have mp: "glob_match p" and mps: "\<forall>p \<in> set ps. glob_match p"
        by simp_all
      have same: "map_of fs1 r = map_of fs r" if "glob_match r" for r
        using that md5_path_not_match [of p] by (auto simp: m1)
      from Inr wr Cons.prems have run: "update_md5_loop md5 ps fs1 = (e, fs')"
        by simp
      note ih = Cons.IH [OF mps run]
      have part1: "map_of fs' q = map_of fs q \<or>
          (\<exists>r \<in> set (p # ps). \<exists>b. q = md5_path_of r \<and> map_of fs r = Some (File b) \<and>
             map_of fs' q = Some (File (md5 b)))" for q
      proof -
        from ih have "map_of fs' q = map_of fs1 q \<or>
          (\<exists>r \<in> set ps. \<exists>b. q = md5_path_of r \<and> map_of fs1 r = Some (File b) \<and>
             map_of fs' q = Some (File (md5 b)))"
          by blast
        then show ?thesis
        proof
          assume eq: "map_of fs' q = map_of fs1 q"
          show ?thesis
          proof (cases "q = md5_path_of p")
            case True
            with eq m1 have "map_of fs' q = Some (File (md5 bytes))"
              by simp
            with True rd have "\<exists>r \<in> set (p # ps). \<exists>b. q = md5_path_of r \<and>
                map_of fs r = Some (File b) \<and> map_of fs' q = Some (File (md5 b))"
              by (intro bexI [of _ p] exI [of _ bytes]) simp_all
            then show ?thesis ..
          next
            case False
            with eq m1 show ?thesis by simp
          qed
        next
          assume "\<exists>r \<in> set ps. \<exists>b. q = md5_path_of r \<and> map_of fs1 r = Some (File b) \<and>
             map_of fs' q = Some (File (md5 b))"
          then obtain r b where r: "r \<in> set ps" "q = md5_path_of r"
            "map_of fs1 r = Some (File b)" "map_of fs' q = Some (File (md5 b))"
            by blast
          with same [of r] mps have "map_of fs r = Some (File b)"
            by simp
          with r have "\<exists>r \<in> set (p # ps). \<exists>b. q = md5_path_of r \<and>
              map_of fs r = Some (File b) \<and> map_of fs' q = Some (File (md5 b))"
            by (intro bexI [of _ r] exI [of _ b]) simp_all
          then show ?thesis ..
        qed
      qed
      have part2: "\<exists>b. map_of fs r = Some (File b) \<and>
          map_of fs' (md5_path_of r) = Some (File (md5 b))"
        if none: "e = None" and r: "r \<in> set (p # ps)" for r
      proof (cases "r \<in> set ps")
        case True
        with ih none obtain b where b: "map_of fs1 r = Some (File b)"
          "map_of fs' (md5_path_of r) = Some (File (md5 b))"
          by blast
        with same [of r] mps True have "map_of fs r = Some (File b)"
          by simp
        with b show ?thesis
          by blast
      next
        case False
        with r have rp: "r = p" by simp
        from ih have "map_of fs' (md5_path_of p) = map_of fs1 (md5_path_of p) \<or>
          (\<exists>t \<in> set ps. \<exists>b. md5_path_of p = md5_path_of t \<and> map_of fs1 t = Some (File b) \<and>
             map_of fs' (md5_path_of p) = Some (File (md5 b)))"
          by blast
        then show ?thesis
        proof
          assume "map_of fs' (md5_path_of p) = map_of fs1 (md5_path_of p)"
          with m1 rd rp show ?thesis by simp
        next
          assume "\<exists>t \<in> set ps. \<exists>b. md5_path_of p = md5_path_of t \<and>
             map_of fs1 t = Some (File b) \<and> map_of fs' (md5_path_of p) = Some (File (md5 b))"
          then obtain t b where t: "t \<in> set ps" "md5_path_of p = md5_path_of t"
            "map_of fs1 t = Some (File b)" "map_of fs' (md5_path_of p) = Some (File (md5 b))"
            by blast
          with mps have "glob_match t" by blast
          from md5_path_inj [OF mp this t(2)] have "t = p" by simp
          with t same [of p] mp rd have "b = bytes"
            by simp
          with t rd rp show ?thesis
            by simp
        qed
      qed
      from part1 part2 show ?thesis
        by blast
    qed
  qed
qed

lemma update_md5_loop_completes:
  assumes "\<forall>p \<in> set ps. glob_match p"
    and "\<forall>p \<in> set ps. \<exists>bytes. map_of fs p = Some (File bytes)"
    and "\<forall>p \<in> set ps. map_of fs (md5_path_of p) \<noteq> Some Dir"
  shows "fst (update_md5_loop md5 ps fs) = None"
  using assms
proof (induction ps arbitrary: fs)
  case Nil
  then show ?case by simp
next
  case (Cons p ps)
  from Cons.prems obtain bytes where rd: "map_of fs p = Some (File bytes)"
    by auto
  then have r: "read_bytes fs p = Inr bytes"
    by (simp add: read_bytes_def)
  let ?fs1 = "AList.update (md5_path_of p) (File (md5 bytes)) fs"
  from Cons.prems have w: "write_text fs (md5_path_of p) (md5 bytes) = Inr ?fs1"
    by (auto simp: write_text_def split: option.splits disk_entry.splits)
  have m1: "map_of ?fs1 = (map_of fs)(md5_path_of p \<mapsto> File (md5 bytes))"
    by (rule update_conv')
  from Cons.prems have mps: "\<forall>p \<in> set ps. glob_match p"
    by simp
  have same: "map_of ?fs1 r = map_of fs r" if "glob_match r" for r
    using that md5_path_not_match [of p] by (auto simp: m1)
  have "\<forall>t \<in> set ps. \<exists>bytes. map_of ?fs1 t = Some (File bytes)"
    using Cons.prems(2) mps same by simp
  moreover have "\<forall>t \<in> set ps. map_of ?fs1 (md5_path_of t) \<noteq> Some Dir"
    using Cons.prems(3) by (simp add: m1)
  ultimately have "fst (update_md5_loop md5 ps ?fs1) = None"
    using Cons.IH [OF mps] by blast
  with r w show ?case
    by simp
qed

lemma glob_iff: "p \<in> set (glob fs) \<longleftrightarrow> glob_match p \<and> map_of fs p \<noteq> None"
  by (auto simp: glob_def map_of_eq_None_iff)

text \<open>
  C2, as amended. Let the script leave the tree \<open>fs'\<close>. A path the glob matches ends with
  \<open>.pdparams\<close>, and its sidecar path is the same path with that suffix replaced by
  \<open>.md5\<close>. When the script ends without an exception, every regular file that the
  glob matches has its sidecar, a regular file holding the hex digest of the file's
  bytes. Complete or not, the script changes nothing else: an entry that differs from
  before is the sidecar of a matched file and holds that file's digest. The script
  ends without an exception when no matched path and no sidecar path is a directory.
\<close>

theorem update_md5_sidecars:
  assumes "update_md5 md5 fs = (e, fs')"
  shows
    "(\<forall>p. glob_match p \<longrightarrow> (\<exists>stem. p = stem @ ext \<and> md5_path_of p = stem @ ''.md5'')) \<and>
     (e = None \<longrightarrow>
        (\<forall>p bytes. glob_match p \<and> map_of fs p = Some (File bytes) \<longrightarrow>
           map_of fs' (md5_path_of p) = Some (File (md5 bytes)))) \<and>
     (\<forall>q. map_of fs' q = map_of fs q \<or>
          (\<exists>p bytes. glob_match p \<and> map_of fs p = Some (File bytes) \<and> q = md5_path_of p \<and>
             map_of fs' q = Some (File (md5 bytes)))) \<and>
     ((\<forall>p. glob_match p \<longrightarrow>
          map_of fs p \<noteq> Some Dir \<and>
          (map_of fs p \<noteq> None \<longrightarrow> map_of fs (md5_path_of p) \<noteq> Some Dir)) \<longrightarrow>
      e = None)"
proof -
  have all: "\<forall>p \<in> set (glob fs). glob_match p"
    by (simp add: glob_iff)
  from assms have run: "update_md5_loop md5 (glob fs) fs = (e, fs')"
    by (simp add: update_md5_def)
  note ch = update_md5_loop_changes [OF all run]
  have naming: "\<exists>stem. p = stem @ ext \<and> md5_path_of p = stem @ ''.md5''"
    if "glob_match p" for p
  proof -
    from glob_match_suffix [OF that] obtain stem where "p = stem @ ext"
      by (auto simp: suffix_def)
    then show ?thesis
      by (simp add: md5_path_of_stem)
  qed
  have written: "map_of fs' (md5_path_of p) = Some (File (md5 bytes))"
    if "e = None" "glob_match p" "map_of fs p = Some (File bytes)" for p bytes
  proof -
    from that have "p \<in> set (glob fs)"
      by (simp add: glob_iff)
    with ch that(1) obtain b where "map_of fs p = Some (File b)"
      "map_of fs' (md5_path_of p) = Some (File (md5 b))"
      by blast
    with that(3) show ?thesis by simp
  qed
  have only: "map_of fs' q = map_of fs q \<or>
      (\<exists>p bytes. glob_match p \<and> map_of fs p = Some (File bytes) \<and> q = md5_path_of p \<and>
         map_of fs' q = Some (File (md5 bytes)))" for q
    using ch all by blast
  have completes: "e = None"
    if ok: "\<forall>p. glob_match p \<longrightarrow>
          map_of fs p \<noteq> Some Dir \<and>
          (map_of fs p \<noteq> None \<longrightarrow> map_of fs (md5_path_of p) \<noteq> Some Dir)"
  proof -
    have "\<forall>p \<in> set (glob fs). \<exists>bytes. map_of fs p = Some (File bytes)"
    proof
      fix p assume "p \<in> set (glob fs)"
      with ok have "map_of fs p \<noteq> Some Dir" "map_of fs p \<noteq> None"
        by (simp_all add: glob_iff)
      then show "\<exists>bytes. map_of fs p = Some (File bytes)"
        by (cases "map_of fs p") (auto intro: disk_entry.exhaust)
    qed
    moreover from ok have "\<forall>p \<in> set (glob fs). map_of fs (md5_path_of p) \<noteq> Some Dir"
      by (simp add: glob_iff)
    ultimately have "fst (update_md5_loop md5 (glob fs) fs) = None"
      using all by (intro update_md5_loop_completes)
    with run show ?thesis by simp
  qed
  from naming written only completes show ?thesis
    by blast
qed

theorem update_md5_sidecars_witness:
  "update_md5
     (\<lambda>bytes. if bytes = ''abc'' then ''900150983cd24fb0d6963f7d28e17f72''
               else ''d41d8cd98f00b204e9800998ecf8427e'')
     [(''m'', Dir), (''m/x.pdparams'', File ''abc''), (''m/x.pdiparams'', File ''q''),
      (''top.pdparams'', File ''t''), (''n'', Dir), (''n/y.pdparams'', File []),
      (''n/y.md5'', File ''stale'')] =
   (None,
    [(''m'', Dir), (''m/x.pdparams'', File ''abc''), (''m/x.pdiparams'', File ''q''),
     (''top.pdparams'', File ''t''), (''n'', Dir), (''n/y.pdparams'', File []),
     (''n/y.md5'', File ''d41d8cd98f00b204e9800998ecf8427e''),
     (''m/x.md5'', File ''900150983cd24fb0d6963f7d28e17f72'')]) \<and>
   glob_match ''m/x.pdparams'' \<and>
   md5_path_of ''m/x.pdparams'' = ''m/x.md5'' \<and>
   map_of
     [(''m'', Dir), (''m/x.pdparams'', File ''abc''), (''m/x.pdiparams'', File ''q''),
      (''top.pdparams'', File ''t''), (''n'', Dir), (''n/y.pdparams'', File []),
      (''n/y.md5'', File ''d41d8cd98f00b204e9800998ecf8427e''),
      (''m/x.md5'', File ''900150983cd24fb0d6963f7d28e17f72'')]
     (md5_path_of ''m/x.pdparams'') =
   Some (File ''900150983cd24fb0d6963f7d28e17f72'')"
proof -
  let ?md5 = "\<lambda>bytes. if bytes = ''abc'' then ''900150983cd24fb0d6963f7d28e17f72''
               else ''d41d8cd98f00b204e9800998ecf8427e''"
  let ?fs = "[(''m'', Dir), (''m/x.pdparams'', File ''abc''), (''m/x.pdiparams'', File ''q''),
      (''top.pdparams'', File ''t''), (''n'', Dir), (''n/y.pdparams'', File []),
      (''n/y.md5'', File ''stale'')]"
  let ?fs' = "[(''m'', Dir), (''m/x.pdparams'', File ''abc''), (''m/x.pdiparams'', File ''q''),
     (''top.pdparams'', File ''t''), (''n'', Dir), (''n/y.pdparams'', File []),
     (''n/y.md5'', File ''d41d8cd98f00b204e9800998ecf8427e''),
     (''m/x.md5'', File ''900150983cd24fb0d6963f7d28e17f72'')]"
  have run: "update_md5 ?md5 ?fs = (None, ?fs')"
    by code_simp
  have m: "glob_match ''m/x.pdparams''"
    by code_simp
  have p: "md5_path_of ''m/x.pdparams'' = ''m/x.md5''"
    by code_simp
  have f: "map_of ?fs ''m/x.pdparams'' = Some (File ''abc'')"
    by simp
  from update_md5_sidecars [OF run]
  have "\<forall>p bytes. glob_match p \<and> map_of ?fs p = Some (File bytes) \<longrightarrow>
          map_of ?fs' (md5_path_of p) = Some (File (?md5 bytes))"
    by blast
  with m f have "map_of ?fs' (md5_path_of ''m/x.pdparams'') = Some (File (?md5 ''abc''))"
    by blast
  then have "map_of ?fs' (md5_path_of ''m/x.pdparams'') =
      Some (File ''900150983cd24fb0d6963f7d28e17f72'')"
    by simp
  with run m p show ?thesis
    by blast
qed

text \<open>
  C2 as stated fails when the sidecar path is a directory: with the weight file
  \<open>m/x.pdparams\<close> and a directory \<open>m/x.md5\<close>, \<open>write_text\<close> raises
  \<open>IsADirectoryError\<close>, the script ends, and the weight file has no sidecar file.
\<close>

theorem update_md5_sidecar_is_directory:
  "glob_match ''m/x.pdparams'' \<and>
   md5_path_of ''m/x.pdparams'' = ''m/x.md5'' \<and>
   update_md5
     (\<lambda>bytes. if bytes = ''abc'' then ''900150983cd24fb0d6963f7d28e17f72''
               else ''d41d8cd98f00b204e9800998ecf8427e'')
     [(''m'', Dir), (''m/x.pdparams'', File ''abc''), (''m/x.md5'', Dir)] =
   (Some (IsADirectoryError ''m/x.md5''),
    [(''m'', Dir), (''m/x.pdparams'', File ''abc''), (''m/x.md5'', Dir)])"
  by code_simp

section \<open>Properties of \<open>Dataset.__init__\<close>\<close>

lemma py_split_not_Nil: "py_split sep cur s \<noteq> []"
  by (induction sep cur s rule: py_split.induct) auto

lemma lower_char_idem: "lower_char (lower_char c) = lower_char c"
proof -
  define n where "n = (of_char c :: nat)"
  show ?thesis
  proof (cases "(65 \<le> n \<and> n \<le> 90) \<or> (192 \<le> n \<and> n \<le> 222 \<and> n \<noteq> 215)")
    case True
    then have l: "lower_char c = char_of (n + 32)"
      by (auto simp: lower_char_def Let_def n_def)
    from True have "(n + 32) mod 256 = n + 32"
      by auto
    then have "of_char (char_of (n + 32) :: char) = n + 32"
      by simp
    with True show ?thesis
      unfolding l by (auto simp: lower_char_def Let_def)
  next
    case False
    then have "lower_char c = c"
      by (auto simp: lower_char_def Let_def n_def)
    then show ?thesis by simp
  qed
qed

lemma str_lower_idem: "str_lower (str_lower s) = str_lower s"
  by (simp add: str_lower_def lower_char_idem)

lemma parse_line_train_val:
  assumes "separator \<noteq> []" "mode = ''train'' \<or> mode = ''val''"
    "length (py_split separator [] (str_strip line)) \<noteq> 2"
  shows "parse_line mode dataset_root separator line =
           Inl (ValueError (format_incorrect separator))"
  using assms by (auto simp: parse_line_def str_split_def)

lemma parse_line_test:
  assumes "separator \<noteq> []" "mode \<noteq> ''train''" "mode \<noteq> ''val''"
  shows "parse_line mode dataset_root separator line =
           (let items = py_split separator [] (str_strip line) in
            if length items \<noteq> 2 then Inr (path_join dataset_root (hd items), None)
            else Inr (path_join dataset_root (items ! 0),
                      Some (path_join dataset_root (items ! 1))))"
  using assms py_split_not_Nil [of separator "[]" "str_strip line"]
  by (auto simp: parse_line_def str_split_def Let_def split: list.splits)

lemma parse_line_two_fields:
  assumes "separator \<noteq> []" "length (py_split separator [] (str_strip line)) = 2"
  shows "\<exists>entry. parse_line mode dataset_root separator line = Inr entry"
  using assms by (simp add: parse_line_def str_split_def)

lemma read_file_list_train_val:
  assumes "separator \<noteq> []" "mode = ''train'' \<or> mode = ''val''"
    "\<exists>line \<in> set f. length (py_split separator [] (str_strip line)) \<noteq> 2"
  shows "read_file_list mode dataset_root separator f file_list =
           Inl (ValueError (format_incorrect separator))"
  using assms(3)
proof (induction f arbitrary: file_list)
  case Nil
  then show ?case by simp
next
  case (Cons line f)
  show ?case
  proof (cases "length (py_split separator [] (str_strip line)) = 2")
    case True
    with Cons.prems have bad: "\<exists>l \<in> set f. length (py_split separator [] (str_strip l)) \<noteq> 2"
      by auto
    from parse_line_two_fields [OF assms(1) True]
    obtain entry where "parse_line mode dataset_root separator line = Inr entry"
      by blast
    with Cons.IH [OF bad] show ?thesis by simp
  next
    case False
    with parse_line_train_val [OF assms(1,2)] show ?thesis by simp
  qed
qed

lemma read_file_list_test:
  assumes "separator \<noteq> []" "mode \<noteq> ''train''" "mode \<noteq> ''val''"
  shows "\<exists>entries. read_file_list mode dataset_root separator f file_list =
             Inr (file_list @ entries) \<and>
           list_all2 (\<lambda>line entry. parse_line mode dataset_root separator line = Inr entry)
             f entries"
proof (induction f arbitrary: file_list)
  case Nil
  then show ?case by simp
next
  case (Cons line f)
  have "\<exists>entry. parse_line mode dataset_root separator line = Inr entry"
    by (simp add: parse_line_test [OF assms] Let_def)
  then obtain entry where e: "parse_line mode dataset_root separator line = Inr entry"
    by blast
  from Cons.IH [of "file_list @ [entry]"] obtain entries where
    "read_file_list mode dataset_root separator f (file_list @ [entry]) =
       Inr ((file_list @ [entry]) @ entries)"
    "list_all2 (\<lambda>line entry. parse_line mode dataset_root separator line = Inr entry) f entries"
    by blast
  with e show ?case
    by (intro exI [of _ "entry # entries"]) simp
qed

lemma Dataset_init_bad_mode:
  assumes "str_lower mode \<notin> {''train'', ''val'', ''test''}"
  shows "Dataset_init Compose fs transforms dataset_root num_classes mode
           train_path val_path test_path separator ignore_index edge =
         (case Compose transforms of
            Inl e \<Rightarrow> Inl e
          | Inr composed \<Rightarrow>
              Inl (ValueError (''mode should be 'train', 'val' or 'test', but got ''
                     @ str_lower mode @ ''.'')))"
  using assms by (simp add: Dataset_init_def str_lower_idem split: sum.splits)

lemma Dataset_init_reaches_file_list:
  assumes "Compose transforms = Inr (Some c)" "path_exists fs dataset_root"
    "str_lower mode = mode'" "mode' \<in> {''train'', ''val'', ''test''}"
    "select_file_path fs mode' train_path val_path test_path = Inr p"
    "fs p = Some (TextFile f)"
  shows "Dataset_init Compose fs transforms dataset_root num_classes mode
           train_path val_path test_path separator ignore_index edge =
         (case read_file_list mode' dataset_root separator f [] of
            Inl e \<Rightarrow> Inl e
          | Inr file_list \<Rightarrow>
              Inr \<lparr>self_dataset_root = dataset_root, self_transforms = Some c,
                   self_file_list = file_list, self_mode = mode',
                   self_num_classes = num_classes, self_ignore_index = ignore_index,
                   self_edge = edge\<rparr>)"
proof -
  have "str_lower mode' = mode'"
    using assms(3) str_lower_idem by blast
  with assms show ?thesis
    by (auto simp: Dataset_init_def open_lines_def Let_def)
qed

lemma select_file_path_given:
  assumes "fs p = Some (TextFile f)"
  shows "select_file_path fs ''train'' (Some p) val_path test_path = Inr p"
    and "select_file_path fs ''val'' train_path (Some p) test_path = Inr p"
    and "select_file_path fs ''test'' train_path val_path (Some p) = Inr p"
  using assms by (simp_all add: select_file_path_def path_exists_def)

lemma Dataset_init_nonempty_separator:
  assumes "separator \<noteq> []"
  shows
    "(\<forall>c p f.
        Compose transforms = Inr (Some c) \<and> path_exists fs dataset_root \<and>
        (str_lower mode = ''train'' \<and> train_path = Some p \<or>
         str_lower mode = ''val'' \<and> val_path = Some p) \<and>
        fs p = Some (TextFile f) \<and>
        (\<exists>line \<in> set f. length (py_split separator [] (str_strip line)) \<noteq> 2) \<longrightarrow>
        Dataset_init Compose fs transforms dataset_root num_classes mode
          train_path val_path test_path separator ignore_index edge =
        Inl (ValueError (format_incorrect separator))) \<and>
     (\<forall>c p f.
        Compose transforms = Inr (Some c) \<and> path_exists fs dataset_root \<and>
        str_lower mode = ''test'' \<and> test_path = Some p \<and> fs p = Some (TextFile f) \<longrightarrow>
        (\<exists>ds.
           Dataset_init Compose fs transforms dataset_root num_classes mode
             train_path val_path test_path separator ignore_index edge = Inr ds \<and>
           length (self_file_list ds) = length f \<and>
           (\<forall>i < length f.
              length (py_split separator [] (str_strip (f ! i))) \<noteq> 2 \<longrightarrow>
              self_file_list ds ! i =
                (path_join dataset_root (hd (py_split separator [] (str_strip (f ! i)))),
                 None))))"
proof (intro conjI allI impI)
  fix c p f
  assume h: "Compose transforms = Inr (Some c) \<and> path_exists fs dataset_root \<and>
        (str_lower mode = ''train'' \<and> train_path = Some p \<or>
         str_lower mode = ''val'' \<and> val_path = Some p) \<and>
        fs p = Some (TextFile f) \<and>
        (\<exists>line \<in> set f. length (py_split separator [] (str_strip line)) \<noteq> 2)"
  then have m: "str_lower mode = ''train'' \<or> str_lower mode = ''val''"
    by blast
  from h have sel: "select_file_path fs (str_lower mode) train_path val_path test_path = Inr p"
    using select_file_path_given(1,2) by fastforce
  from m have "str_lower mode \<in> {''train'', ''val'', ''test''}"
    by blast
  from Dataset_init_reaches_file_list [OF _ _ refl this sel, where Compose = Compose
      and transforms = transforms and c = c and f = f]
    read_file_list_train_val [OF assms m, where f = f and dataset_root = dataset_root
      and file_list = "[]"] h
  show "Dataset_init Compose fs transforms dataset_root num_classes mode
          train_path val_path test_path separator ignore_index edge =
        Inl (ValueError (format_incorrect separator))"
    by simp
next
  fix c p f
  assume h: "Compose transforms = Inr (Some c) \<and> path_exists fs dataset_root \<and>
        str_lower mode = ''test'' \<and> test_path = Some p \<and> fs p = Some (TextFile f)"
  then have m: "str_lower mode = ''test''" by blast
  from h have sel: "select_file_path fs ''test'' train_path val_path test_path = Inr p"
    using select_file_path_given(3) by fastforce
  from read_file_list_test [OF assms, where mode = "''test''" and dataset_root = dataset_root
      and f = f and file_list = "[]"]
  obtain entries where
    r: "read_file_list ''test'' dataset_root separator f [] = Inr entries" and
    a: "list_all2 (\<lambda>line entry. parse_line ''test'' dataset_root separator line = Inr entry)
          f entries"
    by auto
  have len: "length entries = length f"
    using a by (simp add: list_all2_lengthD)
  have ent: "entries ! i =
      (path_join dataset_root (hd (py_split separator [] (str_strip (f ! i)))), None)"
    if "i < length f" "length (py_split separator [] (str_strip (f ! i))) \<noteq> 2" for i
  proof -
    from list_all2_nthD [OF a that(1)]
    have "parse_line ''test'' dataset_root separator (f ! i) = Inr (entries ! i)" .
    with that(2) parse_line_test [OF assms, where mode = "''test''"
        and dataset_root = dataset_root and line = "f ! i"]
    show ?thesis by (simp add: Let_def)
  qed
  from Dataset_init_reaches_file_list [OF _ _ m _ sel, where Compose = Compose
      and transforms = transforms and c = c and f = f] h r
  have "Dataset_init Compose fs transforms dataset_root num_classes mode
          train_path val_path test_path separator ignore_index edge =
        Inr \<lparr>self_dataset_root = dataset_root, self_transforms = Some c,
             self_file_list = entries, self_mode = ''test'',
             self_num_classes = num_classes, self_ignore_index = ignore_index,
             self_edge = edge\<rparr>"
    by simp
  with len ent show "\<exists>ds.
           Dataset_init Compose fs transforms dataset_root num_classes mode
             train_path val_path test_path separator ignore_index edge = Inr ds \<and>
           length (self_file_list ds) = length f \<and>
           (\<forall>i < length f.
              length (py_split separator [] (str_strip (f ! i))) \<noteq> 2 \<longrightarrow>
              self_file_list ds ! i =
                (path_join dataset_root (hd (py_split separator [] (str_strip (f ! i)))),
                 None))"
    by simp
qed

lemma read_file_list_empty_separator:
  "read_file_list mode dataset_root [] (line # f) file_list =
     Inl (ValueError ''empty separator'')"
  by (simp add: parse_line_def str_split_def)

text \<open>
  C9, as amended. A mode that, lowered, is none of \<open>train\<close>, \<open>val\<close>, \<open>test\<close> makes
  the constructor raise: the \<open>ValueError\<close> of line 85 as soon as
  \<open>Compose(transforms)\<close> on line 76 has returned. Let the constructor reach the file
  list (the transform is composed, \<open>dataset_root\<close> exists, and the mode's list file is
  given and is a file). With a separator that is not empty: in modes \<open>train\<close> and
  \<open>val\<close> a line that does not split into exactly two fields makes it raise the
  \<open>ValueError\<close> of line 126; in mode \<open>test\<close> it returns, with one entry per line,
  and the entry of such a line is the first field joined to \<open>dataset_root\<close>, with
  label path \<open>None\<close>. With the empty separator and a file that has a line, it raises
  \<open>ValueError('empty separator')\<close> in every mode.
\<close>

theorem Dataset_init_mode_and_file_list:
  "(str_lower mode \<notin> {''train'', ''val'', ''test''} \<longrightarrow>
      isl (Dataset_init Compose fs transforms dataset_root num_classes mode
             train_path val_path test_path separator ignore_index edge) \<and>
      (\<forall>composed. Compose transforms = Inr composed \<longrightarrow>
         Dataset_init Compose fs transforms dataset_root num_classes mode
           train_path val_path test_path separator ignore_index edge =
         Inl (ValueError (''mode should be 'train', 'val' or 'test', but got ''
                @ str_lower mode @ ''.'')))) \<and>
   (separator \<noteq> [] \<longrightarrow>
      (\<forall>c p f.
         Compose transforms = Inr (Some c) \<and> path_exists fs dataset_root \<and>
         (str_lower mode = ''train'' \<and> train_path = Some p \<or>
          str_lower mode = ''val'' \<and> val_path = Some p) \<and>
         fs p = Some (TextFile f) \<and>
         (\<exists>line \<in> set f. length (py_split separator [] (str_strip line)) \<noteq> 2) \<longrightarrow>
         Dataset_init Compose fs transforms dataset_root num_classes mode
           train_path val_path test_path separator ignore_index edge =
         Inl (ValueError (format_incorrect separator))) \<and>
      (\<forall>c p f.
         Compose transforms = Inr (Some c) \<and> path_exists fs dataset_root \<and>
         str_lower mode = ''test'' \<and> test_path = Some p \<and> fs p = Some (TextFile f) \<longrightarrow>
         (\<exists>ds.
            Dataset_init Compose fs transforms dataset_root num_classes mode
              train_path val_path test_path separator ignore_index edge = Inr ds \<and>
            length (self_file_list ds) = length f \<and>
            (\<forall>i < length f.
               length (py_split separator [] (str_strip (f ! i))) \<noteq> 2 \<longrightarrow>
               self_file_list ds ! i =
                 (path_join dataset_root (hd (py_split separator [] (str_strip (f ! i)))),
                  None))))) \<and>
   (separator = [] \<longrightarrow>
      (\<forall>c p f.
         Compose transforms = Inr (Some c) \<and> path_exists fs dataset_root \<and>
         (str_lower mode = ''train'' \<and> train_path = Some p \<or>
          str_lower mode = ''val'' \<and> val_path = Some p \<or>
          str_lower mode = ''test'' \<and> test_path = Some p) \<and>
         fs p = Some (TextFile f) \<and> f \<noteq> [] \<longrightarrow>
         Dataset_init Compose fs transforms dataset_root num_classes mode
           train_path val_path test_path separator ignore_index edge =
         Inl (ValueError ''empty separator'')))"
proof (intro conjI impI)
  assume bad: "str_lower mode \<notin> {''train'', ''val'', ''test''}"
  show "isl (Dataset_init Compose fs transforms dataset_root num_classes mode
               train_path val_path test_path separator ignore_index edge)"
    by (simp add: Dataset_init_bad_mode [OF bad] split: sum.splits)
  show "\<forall>composed. Compose transforms = Inr composed \<longrightarrow>
         Dataset_init Compose fs transforms dataset_root num_classes mode
           train_path val_path test_path separator ignore_index edge =
         Inl (ValueError (''mode should be 'train', 'val' or 'test', but got ''
                @ str_lower mode @ ''.''))"
    by (simp add: Dataset_init_bad_mode [OF bad])
next
  assume sep: "separator \<noteq> []"
  from Dataset_init_nonempty_separator [OF sep, THEN conjunct1]
  show "\<forall>c p f.
         Compose transforms = Inr (Some c) \<and> path_exists fs dataset_root \<and>
         (str_lower mode = ''train'' \<and> train_path = Some p \<or>
          str_lower mode = ''val'' \<and> val_path = Some p) \<and>
         fs p = Some (TextFile f) \<and>
         (\<exists>line \<in> set f. length (py_split separator [] (str_strip line)) \<noteq> 2) \<longrightarrow>
         Dataset_init Compose fs transforms dataset_root num_classes mode
           train_path val_path test_path separator ignore_index edge =
         Inl (ValueError (format_incorrect separator))" .
  from Dataset_init_nonempty_separator [OF sep, THEN conjunct2]
  show "\<forall>c p f.
         Compose transforms = Inr (Some c) \<and> path_exists fs dataset_root \<and>
         str_lower mode = ''test'' \<and> test_path = Some p \<and> fs p = Some (TextFile f) \<longrightarrow>
         (\<exists>ds.
            Dataset_init Compose fs transforms dataset_root num_classes mode
              train_path val_path test_path separator ignore_index edge = Inr ds \<and>
            length (self_file_list ds) = length f \<and>
            (\<forall>i < length f.
               length (py_split separator [] (str_strip (f ! i))) \<noteq> 2 \<longrightarrow>
               self_file_list ds ! i =
                 (path_join dataset_root (hd (py_split separator [] (str_strip (f ! i)))),
                  None)))" .
next
  assume sep: "separator = []"
  show "\<forall>c p f.
         Compose transforms = Inr (Some c) \<and> path_exists fs dataset_root \<and>
         (str_lower mode = ''train'' \<and> train_path = Some p \<or>
          str_lower mode = ''val'' \<and> val_path = Some p \<or>
          str_lower mode = ''test'' \<and> test_path = Some p) \<and>
         fs p = Some (TextFile f) \<and> f \<noteq> [] \<longrightarrow>
         Dataset_init Compose fs transforms dataset_root num_classes mode
           train_path val_path test_path separator ignore_index edge =
         Inl (ValueError ''empty separator'')"
  proof (intro allI impI)
    fix c p f
    assume h: "Compose transforms = Inr (Some c) \<and> path_exists fs dataset_root \<and>
         (str_lower mode = ''train'' \<and> train_path = Some p \<or>
          str_lower mode = ''val'' \<and> val_path = Some p \<or>
          str_lower mode = ''test'' \<and> test_path = Some p) \<and>
         fs p = Some (TextFile f) \<and> f \<noteq> []"
    then have m: "str_lower mode \<in> {''train'', ''val'', ''test''}"
      by blast
    from h have sel: "select_file_path fs (str_lower mode) train_path val_path test_path = Inr p"
      using select_file_path_given by fastforce
    from h obtain line rest where f: "f = line # rest"
      by (cases f) auto
    from h have "Dataset_init Compose fs transforms dataset_root num_classes mode
           train_path val_path test_path separator ignore_index edge =
         (case read_file_list (str_lower mode) dataset_root separator f [] of
            Inl e \<Rightarrow> Inl e
          | Inr file_list \<Rightarrow>
              Inr \<lparr>self_dataset_root = dataset_root, self_transforms = Some c,
                   self_file_list = file_list, self_mode = str_lower mode,
                   self_num_classes = num_classes, self_ignore_index = ignore_index,
                   self_edge = edge\<rparr>)"
      by (intro Dataset_init_reaches_file_list [OF _ _ refl m sel]) simp_all
    then show "Dataset_init Compose fs transforms dataset_root num_classes mode
           train_path val_path test_path separator ignore_index edge =
         Inl (ValueError ''empty separator'')"
      unfolding sep f read_file_list_empty_separator by simp
  qed
qed

theorem Dataset_init_mode_and_file_list_witness:
  "Dataset_init (\<lambda>t. Inr (Some t))
     [''data'' \<mapsto> Directory,
      ''data/train.txt'' \<mapsto> TextFile [''a.jpg a.png '' @ [CHR 0xA0, CHR 0x0A], ''b.jpg'' @ [CHR 0x0A]],
      ''data/test.txt'' \<mapsto> TextFile [''a.jpg'' @ [CHR 0x0A], ''b.jpg b.png'' @ [CHR 0x0A]]]
     (0 :: nat) ''data'' 2 ''predict'' None None None '' '' 255 False =
   Inl (ValueError ''mode should be 'train', 'val' or 'test', but got predict.'') \<and>
   Dataset_init (\<lambda>t. Inr (Some t))
     [''data'' \<mapsto> Directory,
      ''data/train.txt'' \<mapsto> TextFile [''a.jpg a.png '' @ [CHR 0xA0, CHR 0x0A], ''b.jpg'' @ [CHR 0x0A]],
      ''data/test.txt'' \<mapsto> TextFile [''a.jpg'' @ [CHR 0x0A], ''b.jpg b.png'' @ [CHR 0x0A]]]
     (0 :: nat) ''data'' 2 ''Train'' (Some ''data/train.txt'') None None '' '' 255 False =
   Inl (ValueError (format_incorrect '' '')) \<and>
   (\<exists>ds.
      Dataset_init (\<lambda>t. Inr (Some t))
        [''data'' \<mapsto> Directory,
         ''data/train.txt'' \<mapsto> TextFile [''a.jpg a.png '' @ [CHR 0xA0, CHR 0x0A], ''b.jpg'' @ [CHR 0x0A]],
         ''data/test.txt'' \<mapsto> TextFile [''a.jpg'' @ [CHR 0x0A], ''b.jpg b.png'' @ [CHR 0x0A]]]
        (0 :: nat) ''data'' 2 ''TEST'' None None (Some ''data/test.txt'') '' '' 255 False =
      Inr ds \<and>
      length (self_file_list ds) = 2 \<and> self_file_list ds ! 0 = (''data/a.jpg'', None)) \<and>
   Dataset_init (\<lambda>t. Inr (Some t))
     [''data'' \<mapsto> Directory,
      ''data/train.txt'' \<mapsto> TextFile [''a.jpg a.png '' @ [CHR 0xA0, CHR 0x0A], ''b.jpg'' @ [CHR 0x0A]],
      ''data/test.txt'' \<mapsto> TextFile [''a.jpg'' @ [CHR 0x0A], ''b.jpg b.png'' @ [CHR 0x0A]]]
     (0 :: nat) ''data'' 2 ''val'' None (Some ''data/train.txt'') None [] 255 False =
   Inl (ValueError ''empty separator'')"
proof -
  let ?C = "\<lambda>t :: nat. Inr (Some t) :: error + nat option"
  let ?train = "[''a.jpg a.png '' @ [CHR 0xA0, CHR 0x0A], ''b.jpg'' @ [CHR 0x0A]]"
  let ?test = "[''a.jpg'' @ [CHR 0x0A], ''b.jpg b.png'' @ [CHR 0x0A]]"
  let ?fs = "[''data'' \<mapsto> Directory, ''data/train.txt'' \<mapsto> TextFile ?train,
      ''data/test.txt'' \<mapsto> TextFile ?test]"
  have sep: "'' '' \<noteq> []"
    by simp
  have low: "str_lower ''predict'' = ''predict''" "str_lower ''Train'' = ''train''"
    "str_lower ''TEST'' = ''test''" "str_lower ''val'' = ''val''"
    by code_simp+
  have root: "path_exists ?fs ''data''"
    by (simp add: path_exists_def)
  have ftrain: "?fs ''data/train.txt'' = Some (TextFile ?train)"
    and ftest: "?fs ''data/test.txt'' = Some (TextFile ?test)"
    by simp_all
  have s0: "py_split '' '' [] (str_strip (?train ! 0)) = [''a.jpg'', ''a.png'']"
    and s1: "py_split '' '' [] (str_strip (?train ! 1)) = [''b.jpg'']"
    and t0: "py_split '' '' [] (str_strip (?test ! 0)) = [''a.jpg'']"
    by code_simp+
  have bad: "\<exists>line \<in> set ?train. length (py_split '' '' [] (str_strip line)) \<noteq> 2"
    using s1 by simp
  note inst = Dataset_init_mode_and_file_list [where Compose = ?C and transforms = 0
      and fs = ?fs and dataset_root = "''data''" and num_classes = 2
      and ignore_index = 255 and edge = False]
  have a: "Dataset_init ?C ?fs 0 ''data'' 2 ''predict'' None None None '' '' 255 False =
      Inl (ValueError ''mode should be 'train', 'val' or 'test', but got predict.'')"
    using inst [where mode = "''predict''" and separator = "'' ''" and train_path = None
        and val_path = None and test_path = None, THEN conjunct1]
    by (simp add: low)
  note train = inst [where mode = "''Train''" and separator = "'' ''"
      and train_path = "Some ''data/train.txt''" and val_path = None and test_path = None,
      THEN conjunct2, THEN conjunct1, THEN mp, OF sep, THEN conjunct1,
      THEN spec, THEN spec, THEN spec, THEN mp]
  have b: "Dataset_init ?C ?fs 0 ''data'' 2 ''Train'' (Some ''data/train.txt'')
      None None '' '' 255 False = Inl (ValueError (format_incorrect '' ''))"
    by (rule train [of 0 "''data/train.txt''"]) (use root low ftrain bad in blast)
  note test = inst [where mode = "''TEST''" and separator = "'' ''"
      and train_path = None and val_path = None and test_path = "Some ''data/test.txt''",
      THEN conjunct2, THEN conjunct1, THEN mp, OF sep, THEN conjunct2,
      THEN spec, THEN spec, THEN spec, THEN mp]
  have "\<exists>ds.
      Dataset_init ?C ?fs 0 ''data'' 2 ''TEST'' None None (Some ''data/test.txt'') '' '' 255 False =
        Inr ds \<and>
      length (self_file_list ds) = length ?test \<and>
      (\<forall>i < length ?test.
         length (py_split '' '' [] (str_strip (?test ! i))) \<noteq> 2 \<longrightarrow>
         self_file_list ds ! i =
           (path_join ''data'' (hd (py_split '' '' [] (str_strip (?test ! i)))), None))"
    by (rule test [of 0 "''data/test.txt''"]) (use root low ftest in blast)
  then obtain ds where
    d: "Dataset_init ?C ?fs 0 ''data'' 2 ''TEST'' None None (Some ''data/test.txt'') '' '' 255 False =
        Inr ds"
    and l: "length (self_file_list ds) = length ?test"
    and e: "\<forall>i < length ?test.
         length (py_split '' '' [] (str_strip (?test ! i))) \<noteq> 2 \<longrightarrow>
         self_file_list ds ! i =
           (path_join ''data'' (hd (py_split '' '' [] (str_strip (?test ! i)))), None)"
    by blast
  have "(0 :: nat) < length ?test"
    by simp
  with e have "length (py_split '' '' [] (str_strip (?test ! 0))) \<noteq> 2 \<longrightarrow>
      self_file_list ds ! 0 =
        (path_join ''data'' (hd (py_split '' '' [] (str_strip (?test ! 0)))), None)"
    by blast
  then have "self_file_list ds ! 0 = (path_join ''data'' ''a.jpg'', None)"
    unfolding t0 by simp
  moreover have "path_join ''data'' ''a.jpg'' = ''data/a.jpg''"
    by code_simp
  ultimately have "self_file_list ds ! 0 = (''data/a.jpg'', None)"
    by simp
  with d l have c: "\<exists>ds.
      Dataset_init ?C ?fs 0 ''data'' 2 ''TEST'' None None (Some ''data/test.txt'') '' '' 255 False =
        Inr ds \<and>
      length (self_file_list ds) = 2 \<and> self_file_list ds ! 0 = (''data/a.jpg'', None)"
    by auto
  note empty = inst [where mode = "''val''" and separator = "[]"
      and train_path = None and val_path = "Some ''data/train.txt''" and test_path = None,
      THEN conjunct2, THEN conjunct2, THEN mp, OF refl,
      THEN spec, THEN spec, THEN spec, THEN mp]
  have e: "Dataset_init ?C ?fs 0 ''data'' 2 ''val'' None (Some ''data/train.txt'') None
      [] 255 False = Inl (ValueError ''empty separator'')"
    by (rule empty [of 0 "''data/train.txt''"]) (use root low ftrain in blast)
  from a b c e show ?thesis
    by blast
qed

text \<open>
  C9 as stated fails for the empty separator: \<open>str.split('')\<close> raises
  \<open>ValueError('empty separator')\<close> on the first line, so in mode \<open>test\<close> the line
  \<open>a.jpg\<close>, which does not split into two fields, is not accepted.
\<close>

theorem Dataset_init_empty_separator:
  "str_split (str_strip ''a.jpg'') [] = Inl (ValueError ''empty separator'') \<and>
   Dataset_init (\<lambda>t. Inr (Some t))
     [''data'' \<mapsto> Directory, ''data/test.txt'' \<mapsto> TextFile [''a.jpg'']]
     (0 :: nat) ''data'' 2 ''test'' None None (Some ''data/test.txt'') [] 255 False =
   Inl (ValueError ''empty separator'')"
  by code_simp

section \<open>Properties of the checkpoints of \<open>train\<close>\<close>












lemma save_points_start [simp]: "save_points cfg start start = []"
  by (simp add: save_points_def)





















section \<open>Properties of the specified predictor\<close>

text \<open>
  C6. With a recorded scale other than zero, \<open>to_full\<close> and \<open>to_crop\<close> are exact
  inverses of each other: \<open>to_full (to_crop p) = p\<close> at every point \<open>p\<close>, so at every
  point within the crop region, and \<open>to_crop (to_full q) = q\<close>.
\<close>

theorem to_full_to_crop:
  assumes "scale z \<noteq> 0"
  shows "to_full z (to_crop z p) = p \<and> to_crop z (to_full z q) = q"
  using assms by (simp add: to_full_def to_crop_def)

theorem to_full_to_crop_witness:
  "scale \<lparr>crop_box = (8, 8, 14, 13), target_size = 64, is_valid = True,
          scale = 32 / 3, padding = (0, 16 / 3)\<rparr> \<noteq> 0 \<and>
   to_crop \<lparr>crop_box = (8, 8, 14, 13), target_size = 64, is_valid = True,
            scale = 32 / 3, padding = (0, 16 / 3)\<rparr> (10, 10) = (64 / 3, 80 / 3) \<and>
   to_full \<lparr>crop_box = (8, 8, 14, 13), target_size = 64, is_valid = True,
            scale = 32 / 3, padding = (0, 16 / 3)\<rparr>
     (to_crop \<lparr>crop_box = (8, 8, 14, 13), target_size = 64, is_valid = True,
               scale = 32 / 3, padding = (0, 16 / 3)\<rparr> (10, 10)) = (10, 10)"
  using to_full_to_crop [of "\<lparr>crop_box = (8, 8, 14, 13), target_size = 64, is_valid = True,
      scale = 32 / 3, padding = (0, 16 / 3)\<rparr>" "(10, 10)"]
  by (simp add: to_crop_def offset_def)





end
